theory Spec2Isabelle
  imports Complex_Main "HOL-Library.Word"
begin

section \<open>The weekend raytracer (src/raytracer.cpp)\<close>

text \<open>
  A shallow embedding of \<^verbatim>\<open>src/raytracer.cpp\<close>. Every C++ \<^verbatim>\<open>float\<close> and
  \<^verbatim>\<open>double\<close> is modelled by \<^typ>\<open>real\<close>: arithmetic is exact, so rounding, overflow
  to infinity and NaN are outside the model, and a division by zero has the value HOL
  gives it (zero) where IEEE arithmetic gives an infinity or a NaN. The control flow,
  the comparisons, the constants and the order of the operations are those of the source.
  The properties below are those of the control flow and of the data flow; the ones about
  the lighting are stated for lights that do not lie on the point they light, the only
  place where the source divides by a distance. Properties whose truth rests on the
  rounding of binary32 (the exact length of a normalized vector, the exact comparison of
  \<open>d2\<close> with the squared radius of a sphere) are not stated.
  \<^verbatim>\<open>size_t\<close> is \<^typ>\<open>nat\<close>: the only subtraction on it (\<^verbatim>\<open>recursion - 1\<close>) is
  guarded by \<^verbatim>\<open>recursion > 0\<close>, and the image is 512 by 512.
  A \<^verbatim>\<open>Material const *\<close> is modelled by the material it points to: materials are
  never written after the scene is built and pointers are never compared.
\<close>

subsection \<open>Vec3\<close>

text \<open>The fields \<^verbatim>\<open>x, y, z\<close> are named \<open>vx, vy, vz\<close> to keep the variable names free.\<close>

datatype Vec3 = Vec3 (vx: real) (vy: real) (vz: real)

definition Vec3_length2 :: "Vec3 \<Rightarrow> real" where
  "Vec3_length2 v = vx v * vx v + vy v * vy v + vz v * vz v"

definition Vec3_length :: "Vec3 \<Rightarrow> real" where
  "Vec3_length v = sqrt (Vec3_length2 v)"

text \<open>\<^verbatim>\<open>operator *(float s)\<close>\<close>

definition Vec3_scale :: "Vec3 \<Rightarrow> real \<Rightarrow> Vec3" where
  "Vec3_scale v s = Vec3 (vx v * s) (vy v * s) (vz v * s)"

definition Vec3_add :: "Vec3 \<Rightarrow> Vec3 \<Rightarrow> Vec3" where
  "Vec3_add v other = Vec3 (vx v + vx other) (vy v + vy other) (vz v + vz other)"

definition Vec3_sub :: "Vec3 \<Rightarrow> Vec3 \<Rightarrow> Vec3" where
  "Vec3_sub v other = Vec3 (vx v - vx other) (vy v - vy other) (vz v - vz other)"

definition Vec3_neg :: "Vec3 \<Rightarrow> Vec3" where
  "Vec3_neg v = Vec3 (- vx v) (- vy v) (- vz v)"

definition Vec3_normalize :: "Vec3 \<Rightarrow> Vec3" where
  "Vec3_normalize v = (let l = Vec3_length v in if l = 0 then v else Vec3_scale v (1 / l))"

definition Vec3_dot :: "Vec3 \<Rightarrow> Vec3 \<Rightarrow> real" where
  "Vec3_dot v other = vx v * vx other + vy v * vy other + vz v * vz other"

definition Vec3_cross :: "Vec3 \<Rightarrow> Vec3 \<Rightarrow> Vec3" where
  "Vec3_cross v other =
     Vec3 (vy v * vz other - vz v * vy other)
          (vz v * vx other - vx v * vz other)
          (vx v * vy other - vy v * vx other)"

text \<open>\<^verbatim>\<open>*this - normal * 2.0 * normal.dot(*this)\<close>: the products associate to the left.\<close>

definition Vec3_reflect :: "Vec3 \<Rightarrow> Vec3 \<Rightarrow> Vec3" where
  "Vec3_reflect v normal = Vec3_sub v (Vec3_scale (Vec3_scale normal 2) (Vec3_dot normal v))"

subsection \<open>Color\<close>

datatype Color = Color (cr: real) (cg: real) (cb: real)

text \<open>The constructor \<^verbatim>\<open>Color(float w)\<close>; \<^verbatim>\<open>Color()\<close> is \<open>Color_gray 0\<close>.\<close>

definition Color_gray :: "real \<Rightarrow> Color" where
  "Color_gray w = Color w w w"

definition Color_brightness :: "Color \<Rightarrow> real" where
  "Color_brightness c = 299 / 1000 * cr c + 587 / 1000 * cg c + 114 / 1000 * cb c"

definition Color_scale :: "Color \<Rightarrow> real \<Rightarrow> Color" where
  "Color_scale c s = Color (cr c * s) (cg c * s) (cb c * s)"

definition Color_mul :: "Color \<Rightarrow> Color \<Rightarrow> Color" where
  "Color_mul c other = Color (cr c * cr other) (cg c * cg other) (cb c * cb other)"

definition Color_div :: "Color \<Rightarrow> Color \<Rightarrow> Color" where
  "Color_div c other = Color (cr c / cr other) (cg c / cg other) (cb c / cb other)"

definition Color_add :: "Color \<Rightarrow> Color \<Rightarrow> Color" where
  "Color_add c other = Color (cr c + cr other) (cg c + cg other) (cb c + cb other)"

definition Color_sub :: "Color \<Rightarrow> Color \<Rightarrow> Color" where
  "Color_sub c other = Color (cr c - cr other) (cg c - cg other) (cb c - cb other)"

subsection \<open>Materials, lights, intersections, shapes\<close>

record Material =
  albedo :: Color
  reflectivity :: real

record PointLight =
  light_position :: Vec3
  power :: real
  color :: Color

record Intersection =
  distance :: real
  position :: Vec3
  normal :: Vec3
  material :: Material

record Plane =
  plane_material :: Material
  plane_origin :: Vec3
  plane_normal :: Vec3

record Sphere =
  sphere_material :: Material
  center :: Vec3
  radius :: real

definition Plane_intersect :: "Plane \<Rightarrow> Vec3 \<Rightarrow> Vec3 \<Rightarrow> Intersection option" where
  "Plane_intersect p ray_origin ray_direction =
     (let denom = - Vec3_dot (plane_normal p) ray_direction in
      if denom > 1 / 1000000 then
        (let p0l0 = Vec3_sub (plane_origin p) ray_origin;
             t = - Vec3_dot p0l0 (plane_normal p) / denom in
         if t \<ge> 0 then
           Some \<lparr> distance = t,
                  position = Vec3_add ray_origin (Vec3_scale ray_direction t),
                  normal = plane_normal p,
                  material = plane_material p \<rparr>
         else None)
      else None)"

definition Sphere_intersect :: "Sphere \<Rightarrow> Vec3 \<Rightarrow> Vec3 \<Rightarrow> Intersection option" where
  "Sphere_intersect s ray_origin ray_direction =
     (let radius2 = radius s * radius s;
          L = Vec3_sub (center s) ray_origin;
          tca = Vec3_dot L ray_direction;
          d2 = Vec3_dot L L - tca * tca in
      if d2 > radius2 then None
      else
        (let thc = sqrt (radius2 - d2);
             t0 = tca - thc;
             t1 = tca + thc;
             (t0, t1) = (if t0 > t1 then (t1, t0) else (t0, t1)) in
         if t0 < 0 then
           (let t0 = t1 in
            if t0 < 0 then None
            else
              Some \<lparr> distance = t0,
                     position = Vec3_add ray_origin (Vec3_scale ray_direction t0),
                     normal = Vec3_normalize
                       (Vec3_sub (Vec3_add ray_origin (Vec3_scale ray_direction t0)) (center s)),
                     material = sphere_material s \<rparr>)
         else
           Some \<lparr> distance = t0,
                  position = Vec3_add ray_origin (Vec3_scale ray_direction t0),
                  normal = Vec3_normalize
                    (Vec3_sub (Vec3_add ray_origin (Vec3_scale ray_direction t0)) (center s)),
                  material = sphere_material s \<rparr>))"

text \<open>\<^verbatim>\<open>using Object = std::variant<Plane, Sphere>\<close>, and the \<^verbatim>\<open>std::visit\<close> that dispatches
  on it in \<^verbatim>\<open>Scene::intersect\<close>.\<close>

datatype Object = ObjPlane Plane | ObjSphere Sphere

fun Object_intersect :: "Object \<Rightarrow> Vec3 \<Rightarrow> Vec3 \<Rightarrow> Intersection option" where
  "Object_intersect (ObjPlane p) ray_origin ray_direction = Plane_intersect p ray_origin ray_direction"
| "Object_intersect (ObjSphere s) ray_origin ray_direction = Sphere_intersect s ray_origin ray_direction"

subsection \<open>Scene\<close>

record Scene =
  objects :: "Object list"
  lights :: "PointLight list"

text \<open>\<^verbatim>\<open>std::numeric_limits<float>::max()\<close>, that is \<open>2^128 - 2^104\<close>.\<close>

definition FLT_MAX :: real where
  "FLT_MAX = 340282346638528859811704183484516925440"

text \<open>
  \<^verbatim>\<open>Intersection final_hit;\<close> default-constructs the two vectors to zero and leaves
  the material pointer indeterminate. The pointer is read only after \<^verbatim>\<open>final_hit = *hit\<close>
  has overwritten it, so the model puts a fixed material in its place.
\<close>

definition initial_final_hit :: Intersection where
  "initial_final_hit =
     \<lparr> distance = FLT_MAX, position = Vec3 0 0 0, normal = Vec3 0 0 0,
       material = \<lparr> albedo = Color 0 0 0, reflectivity = 0 \<rparr> \<rparr>"

text \<open>The body of the loop over \<^verbatim>\<open>objects\<close>, and the loop.\<close>

fun intersect_loop :: "Object list \<Rightarrow> Vec3 \<Rightarrow> Vec3 \<Rightarrow> Intersection \<Rightarrow> Intersection" where
  "intersect_loop [] ray_origin ray_direction final_hit = final_hit"
| "intersect_loop (obj # objs) ray_origin ray_direction final_hit =
     intersect_loop objs ray_origin ray_direction
       (case Object_intersect obj ray_origin ray_direction of
          None \<Rightarrow> final_hit
        | Some hit \<Rightarrow> if distance hit < distance final_hit then hit else final_hit)"

definition Scene_intersect :: "Scene \<Rightarrow> Vec3 \<Rightarrow> Vec3 \<Rightarrow> Intersection option" where
  "Scene_intersect sc ray_origin ray_direction =
     (let final_hit = intersect_loop (objects sc) ray_origin ray_direction initial_final_hit in
      if distance final_hit \<noteq> FLT_MAX then Some final_hit else None)"

definition max_recursion :: nat where
  "max_recursion = 10"

text \<open>The loop over the lights inside \<^verbatim>\<open>Scene::trace\<close>; \<open>lighting\<close> is the accumulator.
  For a light that lies on the hit \<open>distance_to_light\<close> is zero and the source divides by
  zero: the model is meant for the other lights only.\<close>

fun lighting_loop :: "Scene \<Rightarrow> Intersection \<Rightarrow> PointLight list \<Rightarrow> Color \<Rightarrow> Color" where
  "lighting_loop sc intersection [] lighting = lighting"
| "lighting_loop sc intersection (light # ls) lighting =
     (let light_delta = Vec3_sub (position intersection) (light_position light);
          distance_to_light = Vec3_length light_delta in
      if (case Scene_intersect sc (light_position light) (Vec3_normalize light_delta) of
            Some hit \<Rightarrow> distance hit < distance_to_light - 1 / 1000
          | None \<Rightarrow> False)
      then lighting_loop sc intersection ls lighting
      else
        (let attenuation = power light / distance_to_light in
         lighting_loop sc intersection ls (Color_add lighting (Color_scale (color light) attenuation))))"

text \<open>The first half of \<^verbatim>\<open>Scene::trace\<close>: the albedo after the lighting block.\<close>

definition lit_albedo :: "Scene \<Rightarrow> Intersection \<Rightarrow> Color" where
  "lit_albedo sc intersection =
     (let surface_albedo = albedo (material intersection) in
      if Color_brightness surface_albedo > 0 then
        (let lighting = lighting_loop sc intersection (lights sc) (Color_gray (1 / 10)) in
         Color_mul surface_albedo lighting)
      else surface_albedo)"

function Scene_trace :: "Scene \<Rightarrow> Vec3 \<Rightarrow> Vec3 \<Rightarrow> nat \<Rightarrow> Color option" where
  "Scene_trace sc ray_origin ray_direction recursion =
     (case Scene_intersect sc ray_origin ray_direction of
        None \<Rightarrow> None
      | Some intersection \<Rightarrow>
          (let surface_mtl = material intersection;
               surface_albedo = lit_albedo sc intersection;
               surface_reflection =
                 (if recursion > 0 then
                    (if reflectivity surface_mtl > 0 then
                       (let refl_dir = Vec3_reflect ray_direction (normal intersection);
                            refl_origin = Vec3_add (position intersection)
                                            (Vec3_scale refl_dir (1 / 10000)) in
                        case Scene_trace sc refl_origin refl_dir (recursion - 1) of
                          Some hit \<Rightarrow> hit
                        | None \<Rightarrow> Color_gray 0)
                     else Color_gray 0)
                  else Color_gray 0) in
           Some (Color_add surface_albedo surface_reflection)))"
  by pat_completeness auto
termination
  by (relation "measure (\<lambda>(sc, ray_origin, ray_direction, recursion). recursion)") auto

subsection \<open>Image and the output file\<close>

record Image =
  width :: nat
  height :: nat
  pixels :: "Color list"

text \<open>The constructor: \<^verbatim>\<open>pixels(width * height)\<close> holds default-constructed colours.\<close>

definition Image_init :: "nat \<Rightarrow> nat \<Rightarrow> Image" where
  "Image_init w h = \<lparr> width = w, height = h, pixels = replicate (w * h) (Color_gray 0) \<rparr>"

definition Image_clear :: "Image \<Rightarrow> Color \<Rightarrow> Image" where
  "Image_clear img c = img \<lparr> pixels := map (\<lambda>_. c) (pixels img) \<rparr>"

definition Image_apply :: "(Color \<Rightarrow> Color) \<Rightarrow> Image \<Rightarrow> Image" where
  "Image_apply f img = img \<lparr> pixels := map f (pixels img) \<rparr>"

definition Image_get :: "Image \<Rightarrow> nat \<Rightarrow> nat \<Rightarrow> Color" where
  "Image_get img px py = pixels img ! (py * width img + px)"

text \<open>\<^verbatim>\<open>pixels[y * width + x] = color\<close>; every call in \<^verbatim>\<open>main\<close> is in range (out of
  range the C++ is undefined, and the list update of the model does nothing).\<close>

definition Image_set :: "Image \<Rightarrow> nat \<Rightarrow> nat \<Rightarrow> Color \<Rightarrow> Image" where
  "Image_set img px py c = img \<lparr> pixels := (pixels img)[py * width img + px := c] \<rparr>"

type_synonym byte = "8 word"

text \<open>
  The part of the environment that \<^verbatim>\<open>Image::save\<close> touches: which paths \<^verbatim>\<open>fopen\<close> can
  open for writing, what each file holds, and how many bytes the device still takes. A
  write that does not fit fails and writes nothing; \<^verbatim>\<open>fopen(..., "wb")\<close> truncates.
  The \<^verbatim>\<open>FILE *\<close> is modelled by the name of the open file.
\<close>

record FileSystem =
  openable :: "string \<Rightarrow> bool"
  contents :: "string \<Rightarrow> byte list"
  free_space :: nat

definition fopen_wb :: "FileSystem \<Rightarrow> string \<Rightarrow> FileSystem option" where
  "fopen_wb fs file_name =
     (if openable fs file_name then Some (fs \<lparr> contents := (contents fs)(file_name := []) \<rparr>)
      else None)"

text \<open>\<^verbatim>\<open>fprintf\<close> and \<^verbatim>\<open>fwrite\<close>: the status comes first, the new file system second.\<close>

definition stream_write :: "FileSystem \<Rightarrow> string \<Rightarrow> byte list \<Rightarrow> bool \<times> FileSystem" where
  "stream_write fs f bs =
     (if length bs \<le> free_space fs then
        (True, fs \<lparr> contents := (contents fs)(f := contents fs f @ bs),
                    free_space := free_space fs - length bs \<rparr>)
      else (False, fs))"

text \<open>\<^verbatim>\<open>%lu\<close>\<close>

fun decimal :: "nat \<Rightarrow> string" where
  "decimal n = (if n < 10 then [char_of (48 + n)] else decimal (n div 10) @ [char_of (48 + n mod 10)])"

definition ppm_header :: "nat \<Rightarrow> nat \<Rightarrow> byte list" where
  "ppm_header w h = map of_char (''P6 '' @ decimal w @ '' '' @ decimal h @ '' 255'' @ [CHR 0x0A])"

text \<open>\<^verbatim>\<open>uint8_t(std::max(0.0, std::min(255.0, 255.0 * c)))\<close>: the value converted lies in
  \<open>[0, 255]\<close>, where truncation is the floor.\<close>

definition channel_byte :: "real \<Rightarrow> byte" where
  "channel_byte c = of_int \<lfloor>max 0 (min 255 (255 * c))\<rfloor>"

definition pixel_bytes :: "Color \<Rightarrow> byte list" where
  "pixel_bytes c = [channel_byte (cr c), channel_byte (cg c), channel_byte (cb c)]"

fun write_pixels :: "Color list \<Rightarrow> string \<Rightarrow> FileSystem \<Rightarrow> FileSystem" where
  "write_pixels [] f fs = fs"
| "write_pixels (c # cs) f fs = write_pixels cs f (snd (stream_write fs f (pixel_bytes c)))"

text \<open>
  \<^verbatim>\<open>Image::save\<close> is a \<^verbatim>\<open>const\<close> member: the model returns the image next to the
  status and the file system, so that what the call leaves of it can be stated. The
  results of \<^verbatim>\<open>fprintf\<close>, \<^verbatim>\<open>fwrite\<close> and \<^verbatim>\<open>fclose\<close> are dropped, as in the source.
\<close>

definition Image_save :: "Image \<Rightarrow> string \<Rightarrow> FileSystem \<Rightarrow> bool \<times> Image \<times> FileSystem" where
  "Image_save img file_name fs =
     (case fopen_wb fs file_name of
        None \<Rightarrow> (False, img, fs)
      | Some fs1 \<Rightarrow>
          (let fs2 = snd (stream_write fs1 file_name (ppm_header (width img) (height img)));
               fs3 = write_pixels (pixels img) file_name fs2 in
           (True, img, fs3)))"

subsection \<open>Camera\<close>

record Camera =
  cam_position :: Vec3
  forward :: Vec3
  right :: Vec3
  focal_length :: real

text \<open>\<^verbatim>\<open>Camera camera;\<close>\<close>

definition Camera_init :: Camera where
  "Camera_init = \<lparr> cam_position = Vec3 0 0 0, forward = Vec3 0 0 0, right = Vec3 0 0 0,
                    focal_length = 1 \<rparr>"

definition Camera_lookAt :: "Camera \<Rightarrow> Vec3 \<Rightarrow> Vec3 \<Rightarrow> Vec3 \<Rightarrow> Camera" where
  "Camera_lookAt cam pos dest up =
     (let cam1 = cam \<lparr> cam_position := pos \<rparr>;
          cam2 = cam1 \<lparr> forward := Vec3_normalize (Vec3_sub dest pos) \<rparr> in
      cam2 \<lparr> right := Vec3_normalize (Vec3_cross up (forward cam2)) \<rparr>)"

definition Camera_projectRay :: "Camera \<Rightarrow> real \<Rightarrow> real \<Rightarrow> Vec3" where
  "Camera_projectRay cam sx sy =
     Vec3_normalize
       (Vec3_add (Vec3_add (Vec3_scale (right cam) sx)
                           (Vec3_scale (Vec3_cross (forward cam) (right cam)) sy))
                 (Vec3_scale (forward cam) (focal_length cam)))"

subsection \<open>main\<close>

definition left_plane :: Material where
  "left_plane = \<lparr> albedo = Color 1 0 0, reflectivity = 0 \<rparr>"

definition right_plane :: Material where
  "right_plane = \<lparr> albedo = Color 0 1 0, reflectivity = 0 \<rparr>"

definition other_plane :: Material where
  "other_plane = \<lparr> albedo = Color_gray (8 / 10), reflectivity = 0 \<rparr>"

definition mirror_sphere :: Material where
  "mirror_sphere = \<lparr> albedo = Color_gray 0, reflectivity = 1 \<rparr>"

definition main_scene :: Scene where
  "main_scene =
     \<lparr> objects =
         [ ObjPlane \<lparr> plane_material = left_plane, plane_origin = Vec3 (- 10) 0 0, plane_normal = Vec3 1 0 0 \<rparr>,
           ObjPlane \<lparr> plane_material = right_plane, plane_origin = Vec3 10 0 0, plane_normal = Vec3 (- 1) 0 0 \<rparr>,
           ObjPlane \<lparr> plane_material = other_plane, plane_origin = Vec3 0 (- 10) 0, plane_normal = Vec3 0 1 0 \<rparr>,
           ObjPlane \<lparr> plane_material = other_plane, plane_origin = Vec3 0 10 0, plane_normal = Vec3 0 (- 1) 0 \<rparr>,
           ObjPlane \<lparr> plane_material = other_plane, plane_origin = Vec3 0 0 10, plane_normal = Vec3 0 0 (- 1) \<rparr>,
           ObjSphere \<lparr> sphere_material = mirror_sphere, center = Vec3 0 (- 5) (- 5), radius = 2 \<rparr>,
           ObjSphere \<lparr> sphere_material = mirror_sphere, center = Vec3 (433 / 100) (- 4) (5 / 2), radius = 2 \<rparr>,
           ObjSphere \<lparr> sphere_material = mirror_sphere, center = Vec3 (- 433 / 100) (- 9 / 2) (5 / 2), radius = 2 \<rparr> ],
       lights =
         [ \<lparr> light_position = Vec3 0 0 0, power = 10, color = Color 1 1 1 \<rparr> ] \<rparr>"

definition main_camera :: Camera where
  "main_camera = Camera_lookAt Camera_init (Vec3 0 0 (- 10)) (Vec3 0 0 0) (Vec3 0 1 0)"

text \<open>The body of the inner loop of \<^verbatim>\<open>main\<close>, and the two loops.\<close>

definition render_pixel :: "Camera \<Rightarrow> Scene \<Rightarrow> Image \<Rightarrow> nat \<Rightarrow> nat \<Rightarrow> Image" where
  "render_pixel camera scene target px py =
     (let ss_x = 2 * real px / real (width target - 1) - 1;
          ss_y = 1 - 2 * real py / real (height target - 1);
          ray_origin = cam_position camera;
          ray_direction = Camera_projectRay camera ss_x ss_y in
      case Scene_trace scene ray_origin ray_direction max_recursion of
        Some c \<Rightarrow> Image_set target px py c
      | None \<Rightarrow> Image_set target px py (Color_gray 0))"

definition render :: "Camera \<Rightarrow> Scene \<Rightarrow> Image \<Rightarrow> Image" where
  "render camera scene target =
     fold (\<lambda>py t. fold (\<lambda>px t'. render_pixel camera scene t' px py) [0 ..< width t] t)
          [0 ..< height target] target"

text \<open>The gamma correction; \<^verbatim>\<open>powf\<close> is \<open>powr\<close>, which agrees with it on channels
  that are not negative.\<close>

definition gamma_correct :: "real \<Rightarrow> Color \<Rightarrow> Color" where
  "gamma_correct gamma c = Color (cr c powr (1 / gamma)) (cg c powr (1 / gamma)) (cb c powr (1 / gamma))"

definition main_image :: Image where
  "main_image =
     (let target = Image_init 512 512;
          target = Image_clear target (Color 0 0 0);
          target = render main_camera main_scene target;
          gamma = 22 / 10 in
      Image_apply (gamma_correct gamma) target)"

text \<open>\<^verbatim>\<open>target.save("output.pgm"); return 0;\<close>: the exit status comes first.\<close>

definition main :: "FileSystem \<Rightarrow> int \<times> FileSystem" where
  "main fs =
     (let target = main_image;
          (saved, target', fs') = Image_save target ''output.pgm'' fs in
      (0, fs'))"

subsection \<open>The recursion of \<open>Scene_trace\<close>\<close>

text \<open>The arguments of the recursive call that \<^verbatim>\<open>Scene::trace\<close> makes on the given
  arguments, if it makes one: the two guards and the reflected ray of the source.\<close>

definition recursive_call :: "Scene \<Rightarrow> Vec3 \<Rightarrow> Vec3 \<Rightarrow> nat \<Rightarrow> (Vec3 \<times> Vec3 \<times> nat) option" where
  "recursive_call sc ray_origin ray_direction recursion =
     (case Scene_intersect sc ray_origin ray_direction of
        None \<Rightarrow> None
      | Some intersection \<Rightarrow>
          (if recursion > 0 then
             (if reflectivity (material intersection) > 0 then
                (let refl_dir = Vec3_reflect ray_direction (normal intersection);
                     refl_origin = Vec3_add (position intersection) (Vec3_scale refl_dir (1 / 10000)) in
                 Some (refl_origin, refl_dir, recursion - 1))
              else None)
           else None))"

text \<open>The number of nested activations of \<^verbatim>\<open>Scene::trace\<close> that a call reaches: the
  function itself with the colours left out, counting one for each activation.\<close>

function trace_depth :: "Scene \<Rightarrow> Vec3 \<Rightarrow> Vec3 \<Rightarrow> nat \<Rightarrow> nat" where
  "trace_depth sc ray_origin ray_direction recursion =
     (case Scene_intersect sc ray_origin ray_direction of
        None \<Rightarrow> 1
      | Some intersection \<Rightarrow>
          (if recursion > 0 then
             (if reflectivity (material intersection) > 0 then
                (let refl_dir = Vec3_reflect ray_direction (normal intersection);
                     refl_origin = Vec3_add (position intersection) (Vec3_scale refl_dir (1 / 10000)) in
                 1 + trace_depth sc refl_origin refl_dir (recursion - 1))
              else 1)
           else 1))"
  by pat_completeness auto
termination
  by (relation "measure (\<lambda>(sc, ray_origin, ray_direction, recursion). recursion)") auto

text \<open>Two mirrors that face each other, for a ray that bounces between them for ever.\<close>

definition mirror :: Material where
  "mirror = \<lparr> albedo = Color 0 0 0, reflectivity = 1 \<rparr>"

definition facing_mirrors :: Scene where
  "facing_mirrors =
     \<lparr> objects =
         [ ObjPlane \<lparr> plane_material = mirror, plane_origin = Vec3 0 0 1, plane_normal = Vec3 0 0 (- 1) \<rparr>,
           ObjPlane \<lparr> plane_material = mirror, plane_origin = Vec3 0 0 (- 1), plane_normal = Vec3 0 0 1 \<rparr> ],
       lights = [] \<rparr>"

subsection \<open>Notions used to state the properties\<close>

text \<open>Replacing the material of every shape of a scene.\<close>

fun Object_map_material :: "(Material \<Rightarrow> Material) \<Rightarrow> Object \<Rightarrow> Object" where
  "Object_map_material g (ObjPlane p) = ObjPlane (p \<lparr> plane_material := g (plane_material p) \<rparr>)"
| "Object_map_material g (ObjSphere s) = ObjSphere (s \<lparr> sphere_material := g (sphere_material s) \<rparr>)"

definition Scene_map_material :: "(Material \<Rightarrow> Material) \<Rightarrow> Scene \<Rightarrow> Scene" where
  "Scene_map_material g sc = sc \<lparr> objects := map (Object_map_material g) (objects sc) \<rparr>"

definition with_reflectivity :: "(real \<Rightarrow> real) \<Rightarrow> Material \<Rightarrow> Material" where
  "with_reflectivity f m = m \<lparr> reflectivity := f (reflectivity m) \<rparr>"


text \<open>A mirror of reflectivity \<open>r\<close> in front of a red wall, without lights.\<close>

definition mirror_and_wall :: "real \<Rightarrow> Scene" where
  "mirror_and_wall r =
     \<lparr> objects =
         [ ObjPlane \<lparr> plane_material = \<lparr> albedo = Color 0 0 0, reflectivity = r \<rparr>,
                      plane_origin = Vec3 0 0 1, plane_normal = Vec3 0 0 (- 1) \<rparr>,
           ObjPlane \<lparr> plane_material = \<lparr> albedo = Color 1 0 0, reflectivity = 0 \<rparr>,
                      plane_origin = Vec3 0 0 (- 1), plane_normal = Vec3 0 0 1 \<rparr> ],
       lights = [] \<rparr>"


text \<open>A plane that a ray from the origin along the z axis meets at the distance \<open>t\<close>.\<close>

definition plane_at :: "real \<Rightarrow> Plane" where
  "plane_at t = \<lparr> plane_material = \<lparr> albedo = Color 1 1 1, reflectivity = 0 \<rparr>,
                  plane_origin = Vec3 0 0 t, plane_normal = Vec3 0 0 (- 1) \<rparr>"

text \<open>The plane test with the parameter computed as section 4.2 of the specification
  words it, \<open>t = (origin_to_plane)\<cdot>normal / denom\<close>, to be compared with \<open>Plane_intersect\<close>.\<close>

definition Plane_intersect_as_stated :: "Plane \<Rightarrow> Vec3 \<Rightarrow> Vec3 \<Rightarrow> Intersection option" where
  "Plane_intersect_as_stated p ray_origin ray_direction =
     (let denom = - Vec3_dot (plane_normal p) ray_direction;
          origin_to_plane = Vec3_sub (plane_origin p) ray_origin;
          t = Vec3_dot origin_to_plane (plane_normal p) / denom in
      if denom \<le> 1 / 1000000 then None
      else if t \<ge> 0 then
        Some \<lparr> distance = t,
               position = Vec3_add ray_origin (Vec3_scale ray_direction t),
               normal = plane_normal p,
               material = plane_material p \<rparr>
      else None)"

text \<open>The quantities of section 4.3: the closest-approach parameter, the squared
  closest-approach distance, the half chord, and the hit at a parameter \<open>t\<close>.\<close>

definition sphere_tca :: "Sphere \<Rightarrow> Vec3 \<Rightarrow> Vec3 \<Rightarrow> real" where
  "sphere_tca s ray_origin ray_direction = Vec3_dot (Vec3_sub (center s) ray_origin) ray_direction"

definition sphere_d2 :: "Sphere \<Rightarrow> Vec3 \<Rightarrow> Vec3 \<Rightarrow> real" where
  "sphere_d2 s ray_origin ray_direction =
     Vec3_dot (Vec3_sub (center s) ray_origin) (Vec3_sub (center s) ray_origin)
       - sphere_tca s ray_origin ray_direction * sphere_tca s ray_origin ray_direction"

definition sphere_thc :: "Sphere \<Rightarrow> Vec3 \<Rightarrow> Vec3 \<Rightarrow> real" where
  "sphere_thc s ray_origin ray_direction = sqrt (radius s * radius s - sphere_d2 s ray_origin ray_direction)"

definition sphere_hit_at :: "Sphere \<Rightarrow> Vec3 \<Rightarrow> Vec3 \<Rightarrow> real \<Rightarrow> Intersection" where
  "sphere_hit_at s ray_origin ray_direction t =
     \<lparr> distance = t,
       position = Vec3_add ray_origin (Vec3_scale ray_direction t),
       normal = Vec3_normalize (Vec3_sub (Vec3_add ray_origin (Vec3_scale ray_direction t)) (center s)),
       material = sphere_material s \<rparr>"

text \<open>The shadow test of one light for a hit, and what the light then adds.\<close>

definition distance_to_light :: "Intersection \<Rightarrow> PointLight \<Rightarrow> real" where
  "distance_to_light intersection light =
     Vec3_length (Vec3_sub (position intersection) (light_position light))"

definition occluded :: "Scene \<Rightarrow> Intersection \<Rightarrow> PointLight \<Rightarrow> bool" where
  "occluded sc intersection light =
     (case Scene_intersect sc (light_position light)
             (Vec3_normalize (Vec3_sub (position intersection) (light_position light))) of
        Some hit \<Rightarrow> distance hit < distance_to_light intersection light - 1 / 1000
      | None \<Rightarrow> False)"

definition light_contribution :: "Scene \<Rightarrow> Intersection \<Rightarrow> PointLight \<Rightarrow> Color" where
  "light_contribution sc intersection light =
     (if occluded sc intersection light then Color 0 0 0
      else Color_scale (color light) (power light / distance_to_light intersection light))"








text \<open>A file system on which nothing can be opened, and one on which \<^verbatim>\<open>output.pgm\<close>
  can be opened but the device is full.\<close>

definition read_only_fs :: FileSystem where
  "read_only_fs = \<lparr> openable = (\<lambda>_. False), contents = (\<lambda>_. []), free_space = 0 \<rparr>"

definition full_fs :: FileSystem where
  "full_fs = \<lparr> openable = (\<lambda>_. True), contents = (\<lambda>_. []), free_space = 0 \<rparr>"

text \<open>A sphere of radius 2 around a point of the z axis.\<close>

definition sphere_at :: "real \<Rightarrow> Sphere" where
  "sphere_at c = \<lparr> sphere_material = \<lparr> albedo = Color 1 1 1, reflectivity = 0 \<rparr>,
                   center = Vec3 0 0 c, radius = 2 \<rparr>"



text \<open>A wall and a sphere in front of it.\<close>

definition wall_and_sphere :: Scene where
  "wall_and_sphere =
     \<lparr> objects = [ObjPlane (plane_at 10), ObjSphere (sphere_at 5)], lights = [] \<rparr>"

text \<open>The second half of \<^verbatim>\<open>Scene::trace\<close>: the value of \<^verbatim>\<open>surface_reflection\<close>
  when the function returns, for the hit it has found.\<close>

definition surface_reflection :: "Scene \<Rightarrow> Vec3 \<Rightarrow> Intersection \<Rightarrow> nat \<Rightarrow> Color" where
  "surface_reflection sc ray_direction intersection recursion =
     (if recursion > 0 then
        (if reflectivity (material intersection) > 0 then
           (let refl_dir = Vec3_reflect ray_direction (normal intersection);
                refl_origin = Vec3_add (position intersection) (Vec3_scale refl_dir (1 / 10000)) in
            case Scene_trace sc refl_origin refl_dir (recursion - 1) of
              Some hit \<Rightarrow> hit
            | None \<Rightarrow> Color_gray 0)
         else Color_gray 0)
      else Color_gray 0)"

text \<open>The wall and the sphere with a light in front of the sphere, at the origin, and a
  light behind it, between the sphere and the wall.\<close>

definition front_light :: PointLight where
  "front_light = \<lparr> light_position = Vec3 0 0 0, power = 10, color = Color 1 1 1 \<rparr>"

definition back_light :: PointLight where
  "back_light = \<lparr> light_position = Vec3 0 0 8, power = 10, color = Color 1 1 1 \<rparr>"

definition lit_wall_and_sphere :: Scene where
  "lit_wall_and_sphere = wall_and_sphere \<lparr> lights := [front_light, back_light] \<rparr>"

text \<open>A hit with the material replaced.\<close>

definition Intersection_map_material :: "(Material \<Rightarrow> Material) \<Rightarrow> Intersection \<Rightarrow> Intersection" where
  "Intersection_map_material g h = h \<lparr> material := g (material h) \<rparr>"

text \<open>A device with room for the header of a one-pixel image, and for nothing more.\<close>

definition nearly_full_fs :: FileSystem where
  "nearly_full_fs = \<lparr> openable = (\<lambda>_. True), contents = (\<lambda>_. []), free_space = 11 \<rparr>"

declare Scene_trace.simps [simp del]
declare trace_depth.simps [simp del]
declare decimal.simps [simp del]

section \<open>Properties\<close>

lemmas Vec3_defs = Vec3_dot_def Vec3_sub_def Vec3_add_def Vec3_scale_def Vec3_reflect_def

subsection \<open>Termination of the recursive trace\<close>

text \<open>\<open>recursive_call\<close> is the recursive call of \<open>Scene_trace\<close>, and \<open>trace_depth\<close> counts
  the activations along it.\<close>

lemma Scene_trace_recursive_call:
  "Scene_trace sc ro rd n =
     (case Scene_intersect sc ro rd of
        None \<Rightarrow> None
      | Some intersection \<Rightarrow>
          Some (Color_add (lit_albedo sc intersection)
            (case recursive_call sc ro rd n of
               None \<Rightarrow> Color_gray 0
             | Some (ro', rd', n') \<Rightarrow>
                 (case Scene_trace sc ro' rd' n' of Some hit \<Rightarrow> hit | None \<Rightarrow> Color_gray 0))))"
  by (subst Scene_trace.simps) (simp add: recursive_call_def Let_def split: option.splits)

lemma trace_depth_recursive_call:
  "trace_depth sc ro rd n =
     (case recursive_call sc ro rd n of
        None \<Rightarrow> 1
      | Some (ro', rd', n') \<Rightarrow> 1 + trace_depth sc ro' rd' n')"
  by (subst trace_depth.simps) (simp add: recursive_call_def Let_def split: option.splits)

lemma recursive_call_decreases:
  "recursive_call sc ro rd n = Some (ro', rd', n') \<Longrightarrow> n' < n"
  by (auto simp: recursive_call_def Let_def split: option.splits if_splits)

lemma recursive_call_zero: "recursive_call sc ro rd 0 = None"
  by (simp add: recursive_call_def split: option.splits)

lemma trace_depth_le: "trace_depth sc ro rd n \<le> Suc n"
proof (induction n arbitrary: ro rd)
  case 0
  show ?case by (subst trace_depth.simps) (simp split: option.splits)
next
  case (Suc n)
  show ?case
    by (subst trace_depth.simps) (use Suc.IH in \<open>auto simp: Let_def split: option.splits\<close>)
qed

text \<open>
  C1. \<open>Scene_trace\<close> is a total function (its termination is proved where it is defined,
  by the measure \<open>recursion\<close>). Every recursive call it makes has a strictly smaller
  budget, it makes none at budget zero, and the depth of nested calls is at most the
  budget plus one: at most 11 from the default budget of 10, whatever the scene is.
\<close>

theorem Scene_trace_terminates:
  "(recursive_call sc ro rd n = Some (ro', rd', n') \<longrightarrow> n' < n)
   \<and> recursive_call sc ro rd 0 = None
   \<and> trace_depth sc ro rd n \<le> n + 1
   \<and> trace_depth sc ro rd max_recursion \<le> 11"
proof -
  have "trace_depth sc ro rd max_recursion \<le> Suc max_recursion"
    by (rule trace_depth_le)
  then have "trace_depth sc ro rd max_recursion \<le> 11"
    by (simp add: max_recursion_def)
  moreover have "trace_depth sc ro rd n \<le> n + 1"
    using trace_depth_le [of sc ro rd n] by simp
  ultimately show ?thesis
    using recursive_call_decreases [of sc ro rd n ro' rd' n'] recursive_call_zero [of sc ro rd]
    by blast
qed

text \<open>Between two facing mirrors the bound is reached: eleven activations, and a first
  recursive call with budget 9.\<close>

theorem Scene_trace_terminates_witness:
  "recursive_call facing_mirrors (Vec3 0 0 0) (Vec3 0 0 1) 10
     = Some (Vec3 0 0 (9999 / 10000), Vec3 0 0 (- 1), 9)
   \<and> (9::nat) < 10
   \<and> trace_depth facing_mirrors (Vec3 0 0 0) (Vec3 0 0 1) max_recursion = 11"
proof -
  have call: "recursive_call facing_mirrors (Vec3 0 0 0) (Vec3 0 0 1) 10
     = Some (Vec3 0 0 (9999 / 10000), Vec3 0 0 (- 1), 9)"
    by (simp add: recursive_call_def facing_mirrors_def mirror_def Scene_intersect_def
        initial_final_hit_def FLT_MAX_def Plane_intersect_def Vec3_defs Let_def)
  have depth: "trace_depth facing_mirrors (Vec3 0 0 0) (Vec3 0 0 1) max_recursion = 11"
    by (simp add: trace_depth.simps max_recursion_def facing_mirrors_def mirror_def
        Scene_intersect_def initial_final_hit_def FLT_MAX_def Plane_intersect_def Vec3_defs Let_def)
  from Scene_trace_terminates [of facing_mirrors "Vec3 0 0 0" "Vec3 0 0 1" 10
      "Vec3 0 0 (9999 / 10000)" "Vec3 0 0 (- 1)" 9] call depth
  show ?thesis by simp
qed

subsection \<open>Saving the image, and the exit status\<close>

lemma ppm_header_nonempty: "0 < length (ppm_header w h)"
  by (simp add: ppm_header_def)

lemma ppm_header_small: "w < 10 \<Longrightarrow> h < 10 \<Longrightarrow> length (ppm_header w h) = 11"
  by (simp add: ppm_header_def decimal.simps)

text \<open>
  C10. \<open>Image_save\<close> returns false exactly when the file cannot be opened for writing.
  Whenever the file opens it returns true, whatever the device then accepts of the header
  and of the pixels (the theorem holds for every file system, a full device included), and
  the image it was called on is the image it leaves.
\<close>

theorem Image_save_status:
  "(fst (Image_save img f fs) = False) = (fopen_wb fs f = None)
   \<and> (fopen_wb fs f \<noteq> None \<longrightarrow> fst (Image_save img f fs) = True)
   \<and> fst (snd (Image_save img f fs)) = img"
  by (simp add: Image_save_def Let_def split: option.splits)

text \<open>On a full device the file opens, the header is not written, and the call still
  returns true. On a device with room for the header only, the pixel is not written: the
  file holds the header and nothing else, and the call returns true.\<close>

theorem Image_save_status_witness:
  "fopen_wb full_fs ''output.pgm'' \<noteq> None
   \<and> (case fopen_wb full_fs ''output.pgm'' of
         None \<Rightarrow> False
       | Some fs1 \<Rightarrow> \<not> fst (stream_write fs1 ''output.pgm'' (ppm_header 1 1)))
   \<and> fst (Image_save (Image_init 1 1) ''output.pgm'' full_fs) = True
   \<and> fopen_wb nearly_full_fs ''output.pgm'' \<noteq> None
   \<and> fst (Image_save (Image_init 1 1) ''output.pgm'' nearly_full_fs) = True
   \<and> contents (snd (snd (Image_save (Image_init 1 1) ''output.pgm'' nearly_full_fs))) ''output.pgm''
       = ppm_header 1 1"
proof -
  have opened: "fopen_wb full_fs ''output.pgm'' \<noteq> None"
    by (simp add: fopen_wb_def full_fs_def)
  have header: "(case fopen_wb full_fs ''output.pgm'' of
         None \<Rightarrow> False
       | Some fs1 \<Rightarrow> \<not> fst (stream_write fs1 ''output.pgm'' (ppm_header 1 1)))"
    using ppm_header_nonempty [of 1 1]
    by (simp add: fopen_wb_def full_fs_def stream_write_def)
  have opened': "fopen_wb nearly_full_fs ''output.pgm'' \<noteq> None"
    by (simp add: fopen_wb_def nearly_full_fs_def)
  have pixels: "contents (snd (snd (Image_save (Image_init 1 1) ''output.pgm'' nearly_full_fs)))
      ''output.pgm'' = ppm_header 1 1"
    by (simp add: Image_save_def fopen_wb_def nearly_full_fs_def stream_write_def
        ppm_header_small Image_init_def pixel_bytes_def Let_def)
  from Image_save_status [of "Image_init 1 1" "''output.pgm''" full_fs]
    Image_save_status [of "Image_init 1 1" "''output.pgm''" nearly_full_fs]
    opened header opened' pixels
  show ?thesis by blast
qed

text \<open>
  C2. When the output file cannot be created \<open>Image_save\<close> reports the failure, and
  \<open>main\<close>, which drops the status of \<open>Image_save\<close>, returns the exit status 0: on a
  file system on which nothing can be opened, the run of \<open>main\<close> ends with status 0
  although \<open>Image_save\<close> has returned false for the image that \<open>main\<close> renders.
\<close>

theorem main_ignores_save_failure:
  "fopen_wb read_only_fs ''output.pgm'' = None
   \<and> fst (Image_save main_image ''output.pgm'' read_only_fs) = False
   \<and> fst (main read_only_fs) = 0"
  by (simp add: Image_save_def fopen_wb_def read_only_fs_def main_def Let_def split_def)

subsection \<open>The plane test\<close>

text \<open>
  C6 (as amended). \<open>Plane_intersect\<close> reports no hit when \<open>denom = - normal \<cdot> direction\<close>
  is at most \<open>1e-6\<close>. Otherwise, with \<open>t = - (origin_to_plane \<cdot> normal) / denom\<close>, where
  \<open>origin_to_plane\<close> goes from the ray origin to the origin of the plane, it reports a hit
  exactly when \<open>0 \<le> t\<close>, at the distance \<open>t\<close>, at the point \<open>ray_origin + ray_direction * t\<close>,
  with the stored normal of the plane.
\<close>

theorem Plane_intersect_spec:
  "(- Vec3_dot (plane_normal p) rd \<le> 1 / 1000000 \<longrightarrow> Plane_intersect p ro rd = None)
   \<and> (- Vec3_dot (plane_normal p) rd > 1 / 1000000 \<longrightarrow>
        (Plane_intersect p ro rd \<noteq> None)
          = (0 \<le> - Vec3_dot (Vec3_sub (plane_origin p) ro) (plane_normal p)
                   / (- Vec3_dot (plane_normal p) rd)))
   \<and> (\<forall>h. Plane_intersect p ro rd = Some h \<longrightarrow>
        distance h = - Vec3_dot (Vec3_sub (plane_origin p) ro) (plane_normal p)
                       / (- Vec3_dot (plane_normal p) rd)
        \<and> position h = Vec3_add ro (Vec3_scale rd (distance h))
        \<and> normal h = plane_normal p
        \<and> material h = plane_material p)"
  by (auto simp: Plane_intersect_def Let_def split: if_splits)

theorem Plane_intersect_spec_witness:
  "- Vec3_dot (plane_normal (plane_at 10)) (Vec3 0 0 1) > 1 / 1000000
   \<and> Plane_intersect (plane_at 10) (Vec3 0 0 0) (Vec3 0 0 1) \<noteq> None
   \<and> (\<exists>h. Plane_intersect (plane_at 10) (Vec3 0 0 0) (Vec3 0 0 1) = Some h \<and> distance h = 10)"
proof -
  note spec = Plane_intersect_spec [of "plane_at 10" "Vec3 0 0 1" "Vec3 0 0 0"]
  have denom: "- Vec3_dot (plane_normal (plane_at 10)) (Vec3 0 0 1) > 1 / 1000000"
    by (simp add: plane_at_def Vec3_defs)
  have hit: "Plane_intersect (plane_at 10) (Vec3 0 0 0) (Vec3 0 0 1) \<noteq> None"
    using spec by (simp add: plane_at_def Vec3_defs)
  then obtain h where h: "Plane_intersect (plane_at 10) (Vec3 0 0 0) (Vec3 0 0 1) = Some h"
    by blast
  with spec have "distance h = 10"
    by (simp add: plane_at_def Vec3_defs)
  with denom hit h show ?thesis by simp
qed

text \<open>With the parameter as the specification words it the plane ten units ahead of the ray is
  missed; the source reports it at the distance 10.\<close>

theorem Plane_intersect_counterexample:
  "Plane_intersect (plane_at 10) (Vec3 0 0 0) (Vec3 0 0 1)
     = Some \<lparr> distance = 10, position = Vec3 0 0 10, normal = Vec3 0 0 (- 1),
              material = \<lparr> albedo = Color 1 1 1, reflectivity = 0 \<rparr> \<rparr>
   \<and> Plane_intersect_as_stated (plane_at 10) (Vec3 0 0 0) (Vec3 0 0 1) = None"
  by (simp add: Plane_intersect_def Plane_intersect_as_stated_def plane_at_def Vec3_defs Let_def)

subsection \<open>The sphere test\<close>

text \<open>The branches of \<open>Sphere_intersect\<close>, in terms of the quantities of section 4.3.\<close>

lemma Sphere_intersect_roots:
  "Sphere_intersect s ro rd =
     (if sphere_d2 s ro rd > radius s * radius s then None
      else if 0 \<le> sphere_tca s ro rd - sphere_thc s ro rd
        then Some (sphere_hit_at s ro rd (sphere_tca s ro rd - sphere_thc s ro rd))
      else if 0 \<le> sphere_tca s ro rd + sphere_thc s ro rd
        then Some (sphere_hit_at s ro rd (sphere_tca s ro rd + sphere_thc s ro rd))
      else None)"
proof -
  have "0 \<le> sphere_thc s ro rd" if "\<not> sphere_d2 s ro rd > radius s * radius s"
    using that by (simp add: sphere_thc_def)
  then show ?thesis
    by (auto simp: Sphere_intersect_def sphere_thc_def sphere_d2_def sphere_tca_def
        sphere_hit_at_def Let_def)
qed

subsection \<open>The nearest hit of a scene\<close>










subsection \<open>Lights and shadows\<close>

text \<open>\<open>Scene_trace\<close> returns the lit albedo of the hit plus its reflection.\<close>

lemma Scene_trace_parts:
  "Scene_trace sc ro rd n =
     (case Scene_intersect sc ro rd of
        None \<Rightarrow> None
      | Some h \<Rightarrow> Some (Color_add (lit_albedo sc h) (surface_reflection sc rd h n)))"
  by (subst Scene_trace.simps) (simp add: surface_reflection_def Let_def split: option.splits)

lemma lighting_loop_append:
  "lighting_loop sc isect (ls1 @ ls2) acc = lighting_loop sc isect ls2 (lighting_loop sc isect ls1 acc)"
  by (induction ls1 arbitrary: acc) (simp_all add: Let_def)

lemma lighting_loop_step:
  "lighting_loop sc isect (light # ls) acc =
     lighting_loop sc isect ls
       (if occluded sc isect light then acc
        else Color_add acc (Color_scale (color light) (power light / distance_to_light isect light)))"
  unfolding occluded_def distance_to_light_def by (simp add: Let_def)

lemma Color_add_zero: "Color_add c (Color 0 0 0) = c"
  by (simp add: Color_add_def)

text \<open>
  C7. For a hit that \<open>Scene_trace\<close> shades (the hit of its ray, with an albedo of positive
  brightness) and every light of the scene, wherever the light stands among the lights,
  provided no light lies on the hit itself, where the source divides by zero: the shadow
  ray starts at the light and points to the hit; when the nearest hit of the scene along
  it is strictly closer than \<open>d - 1e-3\<close>, \<open>d\<close> being the distance from the hit to the light,
  the lighting accumulator is left as it is, and otherwise exactly \<open>color * (power / d)\<close>
  is added to it. The colour that \<open>Scene_trace\<close> returns is the albedo multiplied by the
  accumulator after the last light, which is the ambient term plus the contributions of
  the lights, zero for an occluded one, plus the reflection.
\<close>

theorem lighting_per_light:
  assumes "Scene_intersect sc ro rd = Some h"
    and "Color_brightness (albedo (material h)) > 0"
    and "\<forall>l\<in>set (lights sc). 0 < distance_to_light h l"
    and "lights sc = ls1 @ light # ls2"
  shows "occluded sc h light =
     (\<exists>hit. Scene_intersect sc (light_position light)
              (Vec3_normalize (Vec3_sub (position h) (light_position light))) = Some hit
        \<and> distance hit < Vec3_length (Vec3_sub (position h) (light_position light)) - 1 / 1000)
   \<and> lighting_loop sc h (ls1 @ [light]) (Color_gray (1 / 10)) =
       (if occluded sc h light then lighting_loop sc h ls1 (Color_gray (1 / 10))
        else Color_add (lighting_loop sc h ls1 (Color_gray (1 / 10)))
               (Color_scale (color light)
                  (power light / Vec3_length (Vec3_sub (position h) (light_position light)))))
   \<and> lighting_loop sc h (lights sc) (Color_gray (1 / 10))
       = fold (\<lambda>l a. Color_add a (light_contribution sc h l)) (lights sc) (Color_gray (1 / 10))
   \<and> Scene_trace sc ro rd n =
       Some (Color_add
               (Color_mul (albedo (material h)) (lighting_loop sc h (lights sc) (Color_gray (1 / 10))))
               (surface_reflection sc rd h n))"
proof -
  have sum: "lighting_loop sc h ls acc
       = fold (\<lambda>l a. Color_add a (light_contribution sc h l)) ls acc" for ls acc
    by (induction ls arbitrary: acc)
      (simp_all add: lighting_loop_step light_contribution_def Color_add_zero distance_to_light_def
        del: lighting_loop.simps(2))
  have "occluded sc h light =
     (\<exists>hit. Scene_intersect sc (light_position light)
              (Vec3_normalize (Vec3_sub (position h) (light_position light))) = Some hit
        \<and> distance hit < Vec3_length (Vec3_sub (position h) (light_position light)) - 1 / 1000)"
    by (simp add: occluded_def distance_to_light_def split: option.splits)
  moreover have "lighting_loop sc h (ls1 @ [light]) (Color_gray (1 / 10)) =
       (if occluded sc h light then lighting_loop sc h ls1 (Color_gray (1 / 10))
        else Color_add (lighting_loop sc h ls1 (Color_gray (1 / 10)))
               (Color_scale (color light)
                  (power light / Vec3_length (Vec3_sub (position h) (light_position light)))))"
    by (simp add: lighting_loop_append lighting_loop_step distance_to_light_def
        del: lighting_loop.simps(2))
  moreover have "Scene_trace sc ro rd n =
       Some (Color_add
               (Color_mul (albedo (material h)) (lighting_loop sc h (lights sc) (Color_gray (1 / 10))))
               (surface_reflection sc rd h n))"
    using assms(1,2) by (simp add: Scene_trace_parts lit_albedo_def Let_def)
  ultimately show ?thesis
    using sum [of "lights sc" "Color_gray (1 / 10)"] by blast
qed

lemma Vec3_length_z: "Vec3_length (Vec3 0 0 c) = \<bar>c\<bar>"
  by (simp add: Vec3_length_def Vec3_length2_def)

text \<open>A ray from the origin meets the sphere three units ahead. The light at the origin
  reaches that point and adds \<open>color * (10 / 3)\<close>; the light behind the sphere is hidden
  by the sphere and adds nothing.\<close>

theorem lighting_per_light_witness:
  "Scene_intersect lit_wall_and_sphere (Vec3 0 0 0) (Vec3 0 0 1)
     = Some \<lparr> distance = 3, position = Vec3 0 0 3, normal = Vec3 0 0 (- 1),
              material = \<lparr> albedo = Color 1 1 1, reflectivity = 0 \<rparr> \<rparr>
   \<and> lights lit_wall_and_sphere = [front_light] @ back_light # []
   \<and> 0 < distance_to_light
           \<lparr> distance = 3, position = Vec3 0 0 3, normal = Vec3 0 0 (- 1),
             material = \<lparr> albedo = Color 1 1 1, reflectivity = 0 \<rparr> \<rparr> front_light
   \<and> 0 < distance_to_light
           \<lparr> distance = 3, position = Vec3 0 0 3, normal = Vec3 0 0 (- 1),
             material = \<lparr> albedo = Color 1 1 1, reflectivity = 0 \<rparr> \<rparr> back_light
   \<and> \<not> occluded lit_wall_and_sphere
           \<lparr> distance = 3, position = Vec3 0 0 3, normal = Vec3 0 0 (- 1),
             material = \<lparr> albedo = Color 1 1 1, reflectivity = 0 \<rparr> \<rparr> front_light
   \<and> occluded lit_wall_and_sphere
         \<lparr> distance = 3, position = Vec3 0 0 3, normal = Vec3 0 0 (- 1),
           material = \<lparr> albedo = Color 1 1 1, reflectivity = 0 \<rparr> \<rparr> back_light
   \<and> Scene_trace lit_wall_and_sphere (Vec3 0 0 0) (Vec3 0 0 1) max_recursion
       = Some (Color (103 / 30) (103 / 30) (103 / 30))"
proof -
  define h where "h = \<lparr> distance = 3, position = Vec3 0 0 3, normal = Vec3 0 0 (- 1),
      material = \<lparr> albedo = Color 1 1 1, reflectivity = 0 \<rparr> \<rparr>"
  have front_ray: "Scene_intersect lit_wall_and_sphere (Vec3 0 0 0) (Vec3 0 0 1) = Some h"
    by (simp add: h_def Scene_intersect_def lit_wall_and_sphere_def wall_and_sphere_def
        initial_final_hit_def FLT_MAX_def Plane_intersect_def plane_at_def Sphere_intersect_def
        sphere_at_def Vec3_defs Vec3_normalize_def Vec3_length_def Vec3_length2_def Let_def)
  have back_ray: "Scene_intersect lit_wall_and_sphere (Vec3 0 0 8) (Vec3 0 0 (- 1))
       = Some \<lparr> distance = 1, position = Vec3 0 0 7, normal = Vec3 0 0 1,
                material = \<lparr> albedo = Color 1 1 1, reflectivity = 0 \<rparr> \<rparr>"
    by (simp add: Scene_intersect_def lit_wall_and_sphere_def wall_and_sphere_def
        initial_final_hit_def FLT_MAX_def Plane_intersect_def plane_at_def Sphere_intersect_def
        sphere_at_def Vec3_defs Vec3_normalize_def Vec3_length_def Vec3_length2_def Let_def)
  have lights: "lights lit_wall_and_sphere = [front_light] @ back_light # []"
    by (simp add: lit_wall_and_sphere_def)
  have bright: "Color_brightness (albedo (material h)) > 0"
    by (simp add: h_def Color_brightness_def)
  have d_front: "distance_to_light h front_light = 3"
    and d_back: "distance_to_light h back_light = 5"
    by (simp_all add: distance_to_light_def h_def front_light_def back_light_def Vec3_sub_def
        Vec3_length_z)
  have apart: "\<forall>l\<in>set (lights lit_wall_and_sphere). 0 < distance_to_light h l"
    by (simp add: lit_wall_and_sphere_def d_front d_back)
  have front: "\<not> occluded lit_wall_and_sphere h front_light"
    using front_ray
    by (simp add: occluded_def distance_to_light_def h_def front_light_def Vec3_sub_def
        Vec3_normalize_def Vec3_length_z Vec3_scale_def)
  have hidden: "occluded lit_wall_and_sphere h back_light"
    using back_ray
    by (simp add: occluded_def distance_to_light_def h_def back_light_def Vec3_sub_def
        Vec3_normalize_def Vec3_length_z Vec3_scale_def)
  have emitted: "color front_light = Color 1 1 1" "power front_light = 10"
    by (simp_all add: front_light_def)
  note shaded = lighting_per_light [OF front_ray bright apart lights, of max_recursion]
  have loop: "lighting_loop lit_wall_and_sphere h (lights lit_wall_and_sphere) (Color_gray (1 / 10))
      = Color (103 / 30) (103 / 30) (103 / 30)"
    unfolding lights
    by (simp add: lighting_loop_step front hidden d_front emitted Color_gray_def Color_add_def
        Color_scale_def del: lighting_loop.simps(2))
  have "surface_reflection lit_wall_and_sphere (Vec3 0 0 1) h max_recursion = Color 0 0 0"
    by (simp add: surface_reflection_def h_def Color_gray_def)
  with shaded loop have "Scene_trace lit_wall_and_sphere (Vec3 0 0 0) (Vec3 0 0 1) max_recursion
       = Some (Color (103 / 30) (103 / 30) (103 / 30))"
    by (simp add: h_def Color_mul_def Color_add_def)
  with front_ray lights front hidden d_front d_back show ?thesis
    unfolding h_def by simp
qed

subsection \<open>Skipping the lighting of a dark albedo\<close>








subsection \<open>Reflectivity\<close>

lemma Intersection_map_material_sel:
  "distance (Intersection_map_material g h) = distance h"
  "position (Intersection_map_material g h) = position h"
  "normal (Intersection_map_material g h) = normal h"
  "material (Intersection_map_material g h) = g (material h)"
  by (simp_all add: Intersection_map_material_def)

lemma Object_intersect_map_material:
  "Object_intersect (Object_map_material g obj) ro rd
     = map_option (Intersection_map_material g) (Object_intersect obj ro rd)"
  by (cases obj)
    (simp_all add: Plane_intersect_def Sphere_intersect_roots sphere_hit_at_def sphere_d2_def
      sphere_tca_def sphere_thc_def Intersection_map_material_def Let_def)

lemma intersect_loop_map_material:
  "intersect_loop (map (Object_map_material g) objs) ro rd (Intersection_map_material g fh)
     = Intersection_map_material g (intersect_loop objs ro rd fh)"
proof (induction objs arbitrary: fh)
  case Nil
  show ?case by simp
next
  case (Cons obj objs)
  show ?case
  proof (cases "Object_intersect obj ro rd")
    case None
    then show ?thesis
      by (simp add: Object_intersect_map_material Cons.IH)
  next
    case (Some h)
    then show ?thesis
      by (simp add: Object_intersect_map_material Intersection_map_material_sel Cons.IH)
  qed
qed

lemma intersect_loop_distance_le: "distance (intersect_loop objs ro rd fh) \<le> distance fh"
proof (induction objs arbitrary: fh)
  case Nil
  show ?case by simp
next
  case (Cons obj objs)
  show ?case
  proof (cases "Object_intersect obj ro rd")
    case None
    then show ?thesis by (simp add: Cons.IH)
  next
    case (Some h)
    then show ?thesis
      using Cons.IH [of h] Cons.IH [of fh] by auto
  qed
qed

text \<open>Two runs of the loop that start at the same distance both keep their starting
  value, or end in the same hit, which is closer than the starting values.\<close>

lemma intersect_loop_start:
  assumes "distance fh' = distance fh"
  shows "(intersect_loop objs ro rd fh = fh \<and> intersect_loop objs ro rd fh' = fh')
       \<or> (intersect_loop objs ro rd fh' = intersect_loop objs ro rd fh
            \<and> distance (intersect_loop objs ro rd fh) < distance fh)"
  using assms
proof (induction objs arbitrary: fh fh')
  case Nil
  show ?case by simp
next
  case (Cons obj objs)
  show ?case
  proof (cases "Object_intersect obj ro rd")
    case None
    then show ?thesis
      using Cons.IH [OF Cons.prems] by simp
  next
    case (Some h)
    show ?thesis
    proof (cases "distance h < distance fh")
      case True
      have "distance (intersect_loop objs ro rd h) \<le> distance h"
        by (rule intersect_loop_distance_le)
      with True show ?thesis
        using Cons.prems by (simp add: Some)
    next
      case False
      then show ?thesis
        using Cons.IH [OF Cons.prems] Cons.prems by (simp add: Some)
    qed
  qed
qed

lemma Scene_intersect_map_material:
  "Scene_intersect (Scene_map_material g sc) ro rd
     = map_option (Intersection_map_material g) (Scene_intersect sc ro rd)"
proof -
  define r where "r = intersect_loop (objects sc) ro rd initial_final_hit"
  define r' where "r' = intersect_loop (map (Object_map_material g) (objects sc)) ro rd initial_final_hit"
  define r'' where "r'' = intersect_loop (map (Object_map_material g) (objects sc)) ro rd
      (Intersection_map_material g initial_final_hit)"
  have mapped: "r'' = Intersection_map_material g r"
    by (simp add: r''_def r_def intersect_loop_map_material)
  have start: "distance initial_final_hit = FLT_MAX"
    "distance (Intersection_map_material g initial_final_hit) = FLT_MAX"
    by (simp_all add: initial_final_hit_def Intersection_map_material_sel)
  have "(r'' = Intersection_map_material g initial_final_hit \<and> r' = initial_final_hit)
      \<or> (r' = r'' \<and> distance r'' < FLT_MAX)"
    using intersect_loop_start [of initial_final_hit "Intersection_map_material g initial_final_hit"
        "map (Object_map_material g) (objects sc)" ro rd]
    by (auto simp: r'_def r''_def start)
  then have "(if distance r' \<noteq> FLT_MAX then Some r' else None)
      = map_option (Intersection_map_material g) (if distance r \<noteq> FLT_MAX then Some r else None)"
  proof
    assume "r'' = Intersection_map_material g initial_final_hit \<and> r' = initial_final_hit"
    then have "distance r' = FLT_MAX" "distance r'' = FLT_MAX"
      using start by simp_all
    then show ?thesis
      by (simp add: mapped Intersection_map_material_sel)
  next
    assume "r' = r'' \<and> distance r'' < FLT_MAX"
    then show ?thesis
      by (simp add: mapped Intersection_map_material_sel)
  qed
  moreover have "Scene_intersect (Scene_map_material g sc) ro rd
      = (if distance r' \<noteq> FLT_MAX then Some r' else None)"
    by (simp add: Scene_intersect_def Scene_map_material_def r'_def Let_def)
  moreover have "Scene_intersect sc ro rd = (if distance r \<noteq> FLT_MAX then Some r else None)"
    by (simp add: Scene_intersect_def r_def Let_def)
  ultimately show ?thesis
    by (simp only:)
qed

lemma lighting_loop_map_material:
  "lighting_loop (Scene_map_material g sc) (Intersection_map_material g isect) ls acc
     = lighting_loop sc isect ls acc"
proof (induction ls arbitrary: acc)
  case Nil
  show ?case by simp
next
  case (Cons light ls)
  have "occluded (Scene_map_material g sc) (Intersection_map_material g isect) light
      = occluded sc isect light"
    by (simp add: occluded_def distance_to_light_def Scene_intersect_map_material
        Intersection_map_material_sel split: option.splits)
  then show ?case
    by (simp add: lighting_loop_step Cons.IH distance_to_light_def Intersection_map_material_sel
        del: lighting_loop.simps(2))
qed

lemma lit_albedo_with_reflectivity:
  "lit_albedo (Scene_map_material (with_reflectivity f) sc)
       (Intersection_map_material (with_reflectivity f) isect)
     = lit_albedo sc isect"
proof -
  have "lights (Scene_map_material (with_reflectivity f) sc) = lights sc"
    by (simp add: Scene_map_material_def)
  moreover have "albedo (material (Intersection_map_material (with_reflectivity f) isect))
      = albedo (material isect)"
    by (simp add: Intersection_map_material_sel with_reflectivity_def)
  ultimately show ?thesis
    by (simp add: lit_albedo_def lighting_loop_map_material Let_def)
qed

lemma reflectivity_invariance:
  assumes "\<forall>r. (0 < f r) = (0 < r)"
  shows "Scene_trace (Scene_map_material (with_reflectivity f) sc) ro rd n = Scene_trace sc ro rd n"
proof (induction n arbitrary: ro rd)
  case 0
  show ?case
    by (subst Scene_trace.simps, subst (2) Scene_trace.simps)
      (auto simp: Scene_intersect_map_material lit_albedo_with_reflectivity Let_def
        split: option.splits)
next
  case (Suc n)
  have gate: "(0 < reflectivity (material (Intersection_map_material (with_reflectivity f) h)))
      = (0 < reflectivity (material h))" for h
    using assms by (simp add: Intersection_map_material_sel with_reflectivity_def)
  have same: "normal (Intersection_map_material (with_reflectivity f) h) = normal h"
    "position (Intersection_map_material (with_reflectivity f) h) = position h" for h
    by (simp_all add: Intersection_map_material_sel)
  show ?case
    by (subst Scene_trace.simps, subst (2) Scene_trace.simps)
      (auto simp: Scene_intersect_map_material lit_albedo_with_reflectivity Let_def gate same
        Suc.IH split: option.splits)
qed

text \<open>
  C3 (as amended). The reflectivity is only compared with zero. For a hit, when the
  budget and the reflectivity of its material are positive, \<open>Scene_trace\<close> adds the whole
  colour of the recursive trace of the reflected ray (black when that ray leaves the
  scene) to the lit albedo, and otherwise it adds nothing. The magnitude of a positive
  reflectivity plays no part: replacing the reflectivities of a scene by any others that
  are positive exactly where the old ones are leaves every traced colour as it is.
\<close>

theorem reflectivity_is_a_gate:
  assumes "\<forall>r. (0 < f r) = (0 < r)"
    and "Scene_intersect sc ro rd = Some h"
  shows "Scene_trace sc ro rd n =
       Some (Color_add (lit_albedo sc h)
         (if 0 < n \<and> 0 < reflectivity (material h)
          then (case Scene_trace sc
                       (Vec3_add (position h) (Vec3_scale (Vec3_reflect rd (normal h)) (1 / 10000)))
                       (Vec3_reflect rd (normal h)) (n - 1) of
                  Some c \<Rightarrow> c
                | None \<Rightarrow> Color 0 0 0)
          else Color 0 0 0))
   \<and> Scene_trace (Scene_map_material (with_reflectivity f) sc) ro rd n = Scene_trace sc ro rd n"
proof -
  have "Scene_trace sc ro rd n =
       Some (Color_add (lit_albedo sc h)
         (if 0 < n \<and> 0 < reflectivity (material h)
          then (case Scene_trace sc
                       (Vec3_add (position h) (Vec3_scale (Vec3_reflect rd (normal h)) (1 / 10000)))
                       (Vec3_reflect rd (normal h)) (n - 1) of
                  Some c \<Rightarrow> c
                | None \<Rightarrow> Color 0 0 0)
          else Color 0 0 0))"
    using assms(2)
    by (subst Scene_trace_parts)
      (simp add: surface_reflection_def Color_gray_def Let_def split: option.splits)
  then show ?thesis
    using reflectivity_invariance [OF assms(1)] by simp
qed

text \<open>Halving the reflectivity of the mirror in front of the red wall changes nothing:
  with the reflectivity \<open>1\<close> and with \<open>1 / 2\<close> the mirror, whose lit albedo is black,
  returns the whole colour \<open>(0.1, 0, 0)\<close> of the reflected ray.\<close>

theorem reflectivity_is_a_gate_witness:
  "(\<forall>r::real. (0 < r / 2) = (0 < r))
   \<and> Scene_intersect (mirror_and_wall 1) (Vec3 0 0 0) (Vec3 0 0 1)
       = Some \<lparr> distance = 1, position = Vec3 0 0 1, normal = Vec3 0 0 (- 1),
                material = \<lparr> albedo = Color 0 0 0, reflectivity = 1 \<rparr> \<rparr>
   \<and> Scene_map_material (with_reflectivity (\<lambda>r. r / 2)) (mirror_and_wall 1) = mirror_and_wall (1 / 2)
   \<and> Scene_trace (mirror_and_wall 1) (Vec3 0 0 (9999 / 10000)) (Vec3 0 0 (- 1)) 9
       = Some (Color (1 / 10) 0 0)
   \<and> Scene_trace (mirror_and_wall 1) (Vec3 0 0 0) (Vec3 0 0 1) max_recursion
       = Some (Color (1 / 10) 0 0)
   \<and> Scene_trace (mirror_and_wall (1 / 2)) (Vec3 0 0 0) (Vec3 0 0 1) max_recursion
       = Some (Color (1 / 10) 0 0)"
proof -
  define h where "h = \<lparr> distance = 1, position = Vec3 0 0 1, normal = Vec3 0 0 (- 1),
      material = \<lparr> albedo = Color 0 0 0, reflectivity = 1 \<rparr> \<rparr>"
  have gate: "\<forall>r::real. (0 < r / 2) = (0 < r)"
    by simp
  have hit: "Scene_intersect (mirror_and_wall 1) (Vec3 0 0 0) (Vec3 0 0 1) = Some h"
    by (simp add: h_def mirror_and_wall_def Scene_intersect_def initial_final_hit_def FLT_MAX_def
        Plane_intersect_def Vec3_defs Let_def)
  have half: "Scene_map_material (with_reflectivity (\<lambda>r. r / 2)) (mirror_and_wall 1)
      = mirror_and_wall (1 / 2)"
    by (simp add: Scene_map_material_def with_reflectivity_def mirror_and_wall_def)
  have reflected: "Scene_trace (mirror_and_wall 1) (Vec3 0 0 (9999 / 10000)) (Vec3 0 0 (- 1)) 9
      = Some (Color (1 / 10) 0 0)"
    by (simp add: Scene_trace.simps mirror_and_wall_def Scene_intersect_def
        initial_final_hit_def FLT_MAX_def Plane_intersect_def Vec3_defs lit_albedo_def
        Color_brightness_def Color_gray_def Color_mul_def Color_add_def Let_def)
  have dark: "lit_albedo (mirror_and_wall 1) h = Color 0 0 0"
    by (simp add: lit_albedo_def h_def Color_brightness_def)
  have ray: "Vec3_reflect (Vec3 0 0 1) (normal h) = Vec3 0 0 (- 1)"
    "Vec3_add (position h) (Vec3_scale (Vec3 0 0 (- 1)) (1 / 10000)) = Vec3 0 0 (9999 / 10000)"
    "0 < reflectivity (material h)"
    by (simp_all add: h_def Vec3_defs)
  note gated = reflectivity_is_a_gate [OF gate hit, of max_recursion]
  have whole: "Scene_trace (mirror_and_wall 1) (Vec3 0 0 0) (Vec3 0 0 1) max_recursion
      = Some (Color (1 / 10) 0 0)"
    using gated reflected
    by (simp add: dark ray max_recursion_def Color_add_def)
  with gated have "Scene_trace (mirror_and_wall (1 / 2)) (Vec3 0 0 0) (Vec3 0 0 1) max_recursion
      = Some (Color (1 / 10) 0 0)"
    by (simp add: half)
  with gate hit half reflected whole show ?thesis
    unfolding h_def by simp
qed

text \<open>With the reflectivity \<open>1 / 2\<close> and with the reflectivity \<open>1\<close> the mirror, whose own
  albedo is black, returns the whole colour \<open>(0.1, 0, 0)\<close> that the reflected ray finds on
  the red wall.\<close>

theorem reflectivity_counterexample:
  "Scene_trace (mirror_and_wall (1 / 2)) (Vec3 0 0 (9999 / 10000)) (Vec3 0 0 (- 1)) 9
     = Some (Color (1 / 10) 0 0)
   \<and> Scene_trace (mirror_and_wall (1 / 2)) (Vec3 0 0 0) (Vec3 0 0 1) max_recursion
       = Some (Color (1 / 10) 0 0)
   \<and> Scene_trace (mirror_and_wall 1) (Vec3 0 0 (9999 / 10000)) (Vec3 0 0 (- 1)) 9
       = Some (Color (1 / 10) 0 0)
   \<and> Scene_trace (mirror_and_wall 1) (Vec3 0 0 0) (Vec3 0 0 1) max_recursion
       = Some (Color (1 / 10) 0 0)"
  by (simp add: Scene_trace.simps max_recursion_def mirror_and_wall_def Scene_intersect_def
      initial_final_hit_def FLT_MAX_def Plane_intersect_def Vec3_defs lit_albedo_def
      Color_brightness_def Color_gray_def Color_mul_def Color_add_def Let_def)

end
